theory Spec2Isabelle
  imports Complex_Main
begin

section \<open>Python values shared by both modules\<close>

text \<open>
  Python \<open>str\<close> values are modelled as \<open>string\<close>. Exceptions are values of
  \<open>pyexc\<close>; a function that can raise returns \<open>pyexc + 'a\<close>, \<open>Inl\<close> being
  the raise. Where the source stores \<open>str(e)\<close> the model stores \<open>StrOf e\<close>, the
  text of that exception, next to literal texts \<open>Lit s\<close>.
\<close>

datatype pyexc =
    KeyError string
  | ValueError string
  | BinasciiError string
  | UnicodeDecodeError
  | JSONDecodeError
  | TypeError
  | AttributeError
  | OSError string
  | IndexError

datatype pytext = Lit string | StrOf pyexc

text \<open>
  A Python \<open>dict\<close> keeps insertion order and overwrites in place: an association list
  with at most one entry per key.
\<close>

fun dict_set :: "('k \<times> 'v) list \<Rightarrow> 'k \<Rightarrow> 'v \<Rightarrow> ('k \<times> 'v) list" where
  "dict_set [] k v = [(k, v)]"
| "dict_set ((k', v') # d) k v =
     (if k' = k then (k, v) # d else (k', v') # dict_set d k v)"

definition dict_get :: "('k \<times> 'v) list \<Rightarrow> 'k \<Rightarrow> 'v option" where
  "dict_get d k = map_of d k"

definition dict_keys :: "('k \<times> 'v) list \<Rightarrow> 'k list" where
  "dict_keys d = map fst d"

section \<open>sentinel-service-kvm.py: the service manager\<close>

subsection \<open>Data model\<close>

text \<open>
  One entry of \<open>KVMServiceManager.services\<close>. \<open>pid\<close> and \<open>start_time\<close> are
  \<open>None\<close> or a value; \<open>start_time\<close> is a \<open>datetime\<close>, modelled as microseconds
  on the clock that \<open>datetime.now()\<close> reads. The \<open>config\<close> dict is only handed to
  the launch routines and is left opaque.
\<close>

record 'c service =
  name :: string
  type :: string
  config :: 'c
  status :: string
  pid :: "int option"
  start_time :: "int option"
  memory_usage :: real
  cpu_usage :: real
  restart_count :: int
  last_error :: "pytext option"
  cgroup :: string

record 'c manager =
  kvm_resources :: "string \<rightharpoonup> int"
  services :: "(string \<times> 'c service) list"
  running :: bool

text \<open>\<open>if service["pid"]:\<close> --- \<open>None\<close> and \<open>0\<close> are both falsy.\<close>

definition truthy_pid :: "int option \<Rightarrow> bool" where
  "truthy_pid p = (case p of None \<Rightarrow> False | Some n \<Rightarrow> n \<noteq> 0)"

definition sentinel_cgroup :: string where
  "sentinel_cgroup = ''/sys/fs/cgroup/sentinel''"

text \<open>\<open>f"{self.sentinel_cgroup}/{name.replace('.', '_')}"\<close>\<close>

definition cgroup_path :: "string \<Rightarrow> string" where
  "cgroup_path n =
     sentinel_cgroup @ ''/'' @ map (\<lambda>c. if c = CHR ''.'' then CHR ''_'' else c) n"

subsection \<open>register_service\<close>

definition fresh_service :: "string \<Rightarrow> string \<Rightarrow> 'c \<Rightarrow> 'c service" where
  "fresh_service n service_type cfg =
     \<lparr> name = n, type = service_type, config = cfg, status = ''stopped'',
       pid = None, start_time = None, memory_usage = 0, cpu_usage = 0,
       restart_count = 0, last_error = None, cgroup = cgroup_path n \<rparr>"

definition register_service ::
  "'c manager \<Rightarrow> string \<Rightarrow> string \<Rightarrow> 'c \<Rightarrow> 'c manager" where
  "register_service m n service_type cfg =
     m\<lparr> services := dict_set (services m) n (fresh_service n service_type cfg) \<rparr>"


subsection \<open>The host as one call sees it\<close>

text \<open>
  Everything the manager asks of the operating system during one call: \<open>psutil\<close>,
  \<open>datetime.now()\<close>, \<open>subprocess.run\<close>, \<open>os.kill\<close>, \<open>pgrep\<close>, PID files.
  \<open>launch_raises\<close> is the exception, if any, that a launch routine meets while it writes
  the backend's config file and runs the command. \<open>process_exists i p\<close> is the answer of
  the \<open>i\<close>-th call of \<open>_process_exists(p)\<close> within the call (they are 0.5 s apart in
  \<open>stop_service\<close>).
\<close>

datatype proc_probe =
    NoSuchProcess
  | MemOnly int
  | MemCpu int real

record os_env =
  cpu_percent :: real
  now :: int
  makedirs_ok :: bool
  launch_raises :: "pyexc option"
  returncode :: int
  run_stderr :: string
  find_pid :: "string \<Rightarrow> int option"
  read_pid_file :: "string \<Rightarrow> int option"
  initd_exists :: "string \<Rightarrow> bool"
  sigterm_raises :: "pyexc option"
  sigkill_raises :: "pyexc option"
  process_exists :: "nat \<Rightarrow> int \<Rightarrow> bool"
  process_probe :: "int \<Rightarrow> proc_probe"

datatype loglevel = LogError | LogWarning

definition put_service :: "'c manager \<Rightarrow> string \<Rightarrow> 'c service \<Rightarrow> 'c manager" where
  "put_service m n s = m\<lparr> services := dict_set (services m) n s \<rparr>"

subsection \<open>Launch routines\<close>

text \<open>
  Each routine writes a config file, runs the backend and sets \<open>service["pid"]\<close>; the
  result is the \<open>success\<close> flag and the record as the routine leaves it.
\<close>

definition start_wireguard :: "os_env \<Rightarrow> string \<Rightarrow> 'c service \<Rightarrow> pyexc + bool \<times> 'c service" where
  "start_wireguard env n service =
     (case launch_raises env of Some e \<Rightarrow> Inl e
      | None \<Rightarrow>
          if returncode env = 0
          then Inr (True, service\<lparr> pid := find_pid env ''wg-quick'' \<rparr>)
          else Inr (False, service\<lparr> last_error := Some (Lit (run_stderr env)) \<rparr>))"

definition start_openvpn :: "os_env \<Rightarrow> string \<Rightarrow> 'c service \<Rightarrow> pyexc + bool \<times> 'c service" where
  "start_openvpn env n service =
     (case launch_raises env of Some e \<Rightarrow> Inl e
      | None \<Rightarrow>
          if returncode env = 0
          then Inr (True, service\<lparr> pid := find_pid env ''openvpn'' \<rparr>)
          else Inr (False, service\<lparr> last_error := Some (Lit (run_stderr env)) \<rparr>))"

definition start_xray :: "os_env \<Rightarrow> string \<Rightarrow> 'c service \<Rightarrow> pyexc + bool \<times> 'c service" where
  "start_xray env n service =
     (case launch_raises env of Some e \<Rightarrow> Inl e
      | None \<Rightarrow>
          Inr (find_pid env ''xray'' \<noteq> None, service\<lparr> pid := find_pid env ''xray'' \<rparr>))"

definition start_shadowsocks :: "os_env \<Rightarrow> string \<Rightarrow> 'c service \<Rightarrow> pyexc + bool \<times> 'c service" where
  "start_shadowsocks env n service =
     (case launch_raises env of Some e \<Rightarrow> Inl e
      | None \<Rightarrow>
          if returncode env = 0
          then Inr (True, service\<lparr> pid :=
                 read_pid_file env (''/var/run/shadowsocks-'' @ n @ ''.pid'') \<rparr>)
          else Inr (False, service))"

definition start_tor :: "os_env \<Rightarrow> string \<Rightarrow> 'c service \<Rightarrow> pyexc + bool \<times> 'c service" where
  "start_tor env n service =
     (case launch_raises env of Some e \<Rightarrow> Inl e
      | None \<Rightarrow>
          Inr (find_pid env ''tor'' \<noteq> None, service\<lparr> pid := find_pid env ''tor'' \<rparr>))"

definition start_dpi_bypass :: "os_env \<Rightarrow> string \<Rightarrow> 'c service \<Rightarrow> pyexc + bool \<times> 'c service" where
  "start_dpi_bypass env n service =
     (case launch_raises env of Some e \<Rightarrow> Inl e
      | None \<Rightarrow>
          if type service = ''zapret'' \<or> type service = ''byedpi''
             \<or> type service = ''goodbyedpi''
          then Inr (returncode env = 0, service\<lparr> pid := find_pid env (type service) \<rparr>)
          else Inr (False, service))"

definition start_generic :: "os_env \<Rightarrow> string \<Rightarrow> 'c service \<Rightarrow> pyexc + bool \<times> 'c service" where
  "start_generic env n service =
     (case launch_raises env of Some e \<Rightarrow> Inl e
      | None \<Rightarrow>
          if initd_exists env (type service)
          then Inr (returncode env = 0, service\<lparr> pid := find_pid env (type service) \<rparr>)
          else Inr (False, service))"

subsection \<open>Admission, cgroups\<close>

text \<open>
  \<open>_check_resources\<close> reads \<open>self.kvm_resources["memory_available_mb"]\<close>, the table
  the manager was constructed with, and \<open>psutil.cpu_percent()\<close>. It returns the verdict
  and the levels of the messages it logs. A table without the key raises \<open>KeyError\<close>.
\<close>

definition check_resources :: "os_env \<Rightarrow> 'c manager \<Rightarrow> string \<Rightarrow> pyexc + bool \<times> loglevel list" where
  "check_resources env m n =
     (case dict_get (services m) n of
        None \<Rightarrow> Inl (KeyError n)
      | Some service \<Rightarrow>
          let cpu_check =
                (if type service \<in> set [''xray'', ''sing-box''] \<and> cpu_percent env > 80
                 then Inr (True, [LogWarning]) else Inr (True, []))
          in if type service \<in> set [''xray'', ''adguardhome'', ''hysteria2'']
             then (case kvm_resources m ''memory_available_mb'' of
                     None \<Rightarrow> Inl (KeyError ''memory_available_mb'')
                   | Some mem \<Rightarrow> if mem < 512 then Inr (False, [LogError]) else cpu_check)
             else cpu_check)"

text \<open>
  \<open>_create_service_cgroup\<close> swallows every exception; when \<open>os.makedirs\<close> succeeds
  it stores the path. \<open>_remove_service_cgroup\<close> and \<open>_apply_resource_limits\<close> only
  touch the cgroup filesystem and swallow every exception: they leave the table as it is.
\<close>

definition create_service_cgroup :: "os_env \<Rightarrow> string \<Rightarrow> 'c service \<Rightarrow> 'c service" where
  "create_service_cgroup env n service =
     (if makedirs_ok env then service\<lparr> cgroup := cgroup_path n \<rparr> else service)"

subsection \<open>start_service\<close>

definition launch :: "os_env \<Rightarrow> string \<Rightarrow> 'c service \<Rightarrow> pyexc + bool \<times> 'c service" where
  "launch env n service =
     (if type service = ''wireguard'' then start_wireguard env n service
      else if type service = ''openvpn'' then start_openvpn env n service
      else if type service = ''xray'' then start_xray env n service
      else if type service = ''shadowsocks'' then start_shadowsocks env n service
      else if type service = ''tor'' then start_tor env n service
      else if type service \<in> set [''zapret'', ''byedpi'', ''goodbyedpi'']
      then start_dpi_bypass env n service
      else start_generic env n service)"

text \<open>
  The result is \<open>Inl\<close> only for the \<open>KeyError\<close> of \<open>_check_resources\<close>, which is
  raised outside the \<open>try\<close>; every exception of the launch is caught.
\<close>

definition start_service :: "os_env \<Rightarrow> 'c manager \<Rightarrow> string \<Rightarrow> pyexc + bool \<times> 'c manager" where
  "start_service env m n =
     (case dict_get (services m) n of
        None \<Rightarrow> Inr (False, m)
      | Some service \<Rightarrow>
          (case check_resources env m n of
             Inl e \<Rightarrow> Inl e
           | Inr (ok, logged) \<Rightarrow>
               if \<not> ok
               then Inr (False,
                      put_service m n (service\<lparr> last_error := Some (Lit ''Insufficient resources'') \<rparr>))
               else
                 let starting = create_service_cgroup env n (service\<lparr> status := ''starting'' \<rparr>)
                 in (case launch env n starting of
                       Inl e \<Rightarrow>
                         Inr (False, put_service m n
                                (starting\<lparr> status := ''error'', last_error := Some (StrOf e) \<rparr>))
                     | Inr (success, launched) \<Rightarrow>
                         if success
                         then Inr (True, put_service m n
                                (launched\<lparr> status := ''running'', start_time := Some (now env),
                                            restart_count := 0 \<rparr>))
                         else Inr (False, put_service m n
                                (launched\<lparr> status := ''error'',
                                            last_error := Some (Lit ''Start failed'') \<rparr>)))))"

subsection \<open>stop_service\<close>




subsection \<open>get_status\<close>





subsection \<open>The monitor\<close>

text \<open>
  One pass of the \<open>for\<close> loop of \<open>_monitor_loop\<close> over one service. The second
  component collects the names for which the loop logs the restart and calls
  \<open>start_service\<close>.
\<close>

definition monitor_service ::
  "os_env \<Rightarrow> string \<Rightarrow> 'c manager \<times> string list \<Rightarrow> pyexc + 'c manager \<times> string list" where
  "monitor_service env n acc =
     (case acc of (m, restarted) \<Rightarrow>
       (case dict_get (services m) n of
          None \<Rightarrow> Inr (m, restarted)
        | Some service \<Rightarrow>
            if status service = ''running'' \<and> truthy_pid (pid service)
               \<and> \<not> process_exists env 0 (the (pid service))
            then
              let counted = service\<lparr> restart_count := restart_count service + 1 \<rparr>
              in if restart_count counted < 3
                 then (case start_service env (put_service m n counted) n of
                         Inl e \<Rightarrow> Inl e
                       | Inr (ok, m') \<Rightarrow> Inr (m', restarted @ [n]))
                 else Inr (put_service m n
                        (counted\<lparr> status := ''error'',
                                  last_error := Some (Lit ''Max restarts exceeded'') \<rparr>),
                        restarted)
            else Inr (m, restarted)))"

fun monitor_services ::
  "os_env \<Rightarrow> string list \<Rightarrow> 'c manager \<times> string list \<Rightarrow> pyexc + 'c manager \<times> string list" where
  "monitor_services env [] acc = Inr acc"
| "monitor_services env (n # ns) acc =
     (case monitor_service env n acc of
        Inl e \<Rightarrow> Inl e
      | Inr acc' \<Rightarrow> monitor_services env ns acc')"

text \<open>
  \<open>while self.running: ...; time.sleep(10)\<close>. The loop has no exit of its own; the
  model runs it for a given number of rounds, round \<open>k\<close> seeing the host \<open>envs k\<close>.
\<close>

fun monitor_loop ::
  "(nat \<Rightarrow> os_env) \<Rightarrow> nat \<Rightarrow> nat \<Rightarrow> 'c manager \<times> string list
     \<Rightarrow> pyexc + 'c manager \<times> string list" where
  "monitor_loop envs k 0 acc = Inr acc"
| "monitor_loop envs k (Suc rounds) acc =
     (if \<not> running (fst acc) then Inr acc
      else (case monitor_services (envs k) (dict_keys (services (fst acc))) acc of
              Inl e \<Rightarrow> Inl e
            | Inr acc' \<Rightarrow> monitor_loop envs (Suc k) rounds acc'))"

subsection \<open>Example hosts and tables\<close>

text \<open>
  A host on which every launch succeeds (\<open>pgrep\<close> finds PID 4242) and every liveness
  probe finds the process gone: a backend that starts and exits at once.
\<close>

definition flapping_host :: os_env where
  "flapping_host =
     \<lparr> cpu_percent = 0, now = 0, makedirs_ok = True, launch_raises = None,
       returncode = 0, run_stderr = [], find_pid = (\<lambda>_. Some 4242),
       read_pid_file = (\<lambda>_. None), initd_exists = (\<lambda>_. False),
       sigterm_raises = None, sigkill_raises = None,
       process_exists = (\<lambda>_ _. False), process_probe = (\<lambda>_. NoSuchProcess) \<rparr>"

definition running_service :: "string \<Rightarrow> string \<Rightarrow> unit service" where
  "running_service n ty =
     (fresh_service n ty ())\<lparr> status := ''running'', pid := Some 4242, start_time := Some 0 \<rparr>"

text \<open>A manager holding one service, on a host that reported 100 MB available.\<close>

definition one_service :: "unit service \<Rightarrow> unit manager" where
  "one_service s = \<lparr> kvm_resources = [''memory_available_mb'' \<mapsto> 100],
                     services = [(name s, s)], running = True \<rparr>"

text \<open>A busy host (95 percent CPU) on which no launched process can be found.\<close>

definition failing_host :: os_env where
  "failing_host = flapping_host\<lparr> cpu_percent := 95, find_pid := (\<lambda>_. None) \<rparr>"

section \<open>sentinel-parser-kvm.py: the protocol parser\<close>

subsection \<open>Python values and strings\<close>

text \<open>
  The dictionaries the decoders build hold values of several Python types.
\<close>

datatype pyval =
    VNone
  | VBool bool
  | VInt int
  | VStr string
  | VText pytext
  | VList "pyval list"
  | VDict "(string \<times> pyval) list"

text \<open>
  A \<open>str\<close> is modelled by the list of the bytes of its UTF-8 encoding (a \<open>str\<close>
  with a lone surrogate has none and is outside the model), so that
  \<open>bytes.decode('utf-8')\<close> is a validity check and \<open>startswith\<close>, \<open>in\<close>
  and \<open>split\<close> on ASCII separators are the operations on lists below.

  \<open>str.strip()\<close> removes, at both ends, the characters for which
  \<open>_PyUnicode_IsWhitespace\<close> holds: \<open>\t \n \v \f \r\<close>,
  \<open>0x1c\<close>--\<open>0x1f\<close> and space, one byte each (\<open>is_space\<close>); U+0085 and
  U+00A0, encoded \<open>C2 85\<close> and \<open>C2 A0\<close> (\<open>space2\<close>); U+1680
  (\<open>E1 9A 80\<close>), U+2000--U+200A, U+2028, U+2029, U+202F
  (\<open>E2 80 80\<close>--\<open>8A\<close>, \<open>A8\<close>, \<open>A9\<close>, \<open>AF\<close>), U+205F
  (\<open>E2 81 9F\<close>) and U+3000 (\<open>E3 80 80\<close>) (\<open>space3\<close>).
  \<open>drop_space\<close> removes such characters from the front of a list; \<open>rstrip\<close>
  applies it to the reversed text, with the bytes of each character reversed.
\<close>

definition is_space :: "char \<Rightarrow> bool" where
  "is_space c = (let n = (of_char c :: nat) in (9 \<le> n \<and> n \<le> 13) \<or> (28 \<le> n \<and> n \<le> 32))"

definition space2 :: "char \<Rightarrow> char \<Rightarrow> bool" where
  "space2 a b =
     ((of_char a :: nat) = 194 \<and> ((of_char b :: nat) = 133 \<or> (of_char b :: nat) = 160))"

definition space3 :: "char \<Rightarrow> char \<Rightarrow> char \<Rightarrow> bool" where
  "space3 a b c =
     (let x = (of_char a :: nat); y = (of_char b :: nat); z = (of_char c :: nat)
      in (x = 225 \<and> y = 154 \<and> z = 128)
         \<or> (x = 226 \<and> y = 128 \<and> ((128 \<le> z \<and> z \<le> 138) \<or> z = 168 \<or> z = 169 \<or> z = 175))
         \<or> (x = 226 \<and> y = 129 \<and> z = 159)
         \<or> (x = 227 \<and> y = 128 \<and> z = 128))"

fun drop_space ::
  "(char \<Rightarrow> char \<Rightarrow> bool) \<Rightarrow> (char \<Rightarrow> char \<Rightarrow> char \<Rightarrow> bool) \<Rightarrow> string \<Rightarrow> string" where
  "drop_space p2 p3 (a # b # c # s) =
     (if is_space a then drop_space p2 p3 (b # c # s)
      else if p2 a b then drop_space p2 p3 (c # s)
      else if p3 a b c then drop_space p2 p3 s
      else a # b # c # s)"
| "drop_space p2 p3 [a, b] =
     (if is_space a then drop_space p2 p3 [b] else if p2 a b then [] else [a, b])"
| "drop_space p2 p3 [a] = (if is_space a then [] else [a])"
| "drop_space p2 p3 [] = []"

definition lstrip :: "string \<Rightarrow> string" where
  "lstrip s = drop_space space2 space3 s"

definition rstrip :: "string \<Rightarrow> string" where
  "rstrip s = rev (drop_space (\<lambda>a b. space2 b a) (\<lambda>a b c. space3 c b a) (rev s))"

definition strip :: "string \<Rightarrow> string" where
  "strip s = rstrip (lstrip s)"

fun startswith :: "string \<Rightarrow> string \<Rightarrow> bool" where
  "startswith s [] = True"
| "startswith [] (c # p) = False"
| "startswith (x # s) (c # p) = (x = c \<and> startswith s p)"

definition endswith :: "string \<Rightarrow> string \<Rightarrow> bool" where
  "endswith s p = startswith (rev s) (rev p)"

text \<open>\<open>p in s\<close> on strings.\<close>

fun contains :: "string \<Rightarrow> string \<Rightarrow> bool" where
  "contains [] p = (p = [])"
| "contains (x # s) p = (startswith (x # s) p \<or> contains s p)"

text \<open>\<open>s.split(c)\<close> and \<open>s.split(c, 1)\<close> for a one-character separator.\<close>

fun split_on :: "char \<Rightarrow> string \<Rightarrow> string list" where
  "split_on c [] = [[]]"
| "split_on c (x # xs) =
     (if x = c then [] # split_on c xs
      else (case split_on c xs of w # ws \<Rightarrow> (x # w) # ws | [] \<Rightarrow> [[x]]))"

definition split_once :: "char \<Rightarrow> string \<Rightarrow> string \<times> string" where
  "split_once c s = (takeWhile (\<lambda>x. x \<noteq> c) s, drop 1 (dropWhile (\<lambda>x. x \<noteq> c) s))"

type_synonym pydict = "(string \<times> pyval) list"

text \<open>
  \<open>self.kvm_resources\<close> of the parser: a dict whose keys may be absent, read with
  \<open>.get(key, default)\<close>.
\<close>

record parser_resources =
  cpu_count :: "int option"
  memory_mb :: "int option"
  virtio_net :: "bool option"
  virtio_queues :: "int option"

text \<open>
  Functions of Python and its standard library that the parser calls and that are taken as
  given: \<open>json.loads\<close>, \<open>urllib.parse.parse_qs\<close>, \<open>urllib.parse.unquote\<close>,
  the builtin \<open>int\<close> applied to a \<open>str\<close>, and \<open>str.lower\<close> on a text that
  has a non-ASCII character.
\<close>

record pylib =
  json_loads :: "string \<Rightarrow> pyexc + pyval"
  parse_qs :: "string \<Rightarrow> (string \<times> string list) list"
  unquote :: "string \<Rightarrow> string"
  int_str :: "string \<Rightarrow> pyexc + int"
  str_lower :: "string \<Rightarrow> string"

text \<open>
  \<open>str.lower()\<close>: on a text of ASCII characters it maps \<open>A\<close>--\<open>Z\<close> to
  \<open>a\<close>--\<open>z\<close> and nothing else; on any other text it is the library's function.
\<close>

definition lower_char :: "char \<Rightarrow> char" where
  "lower_char c =
     (let n = (of_char c :: nat)
      in if 65 \<le> n \<and> n \<le> 90
         then Char (digit0 c) (digit1 c) (digit2 c) (digit3 c) (digit4 c) True (digit6 c) (digit7 c)
         else c)"

definition lower :: "pylib \<Rightarrow> string \<Rightarrow> string" where
  "lower lib s =
     (if list_all (\<lambda>c. (of_char c :: nat) < 128) s then map lower_char s else str_lower lib s)"

definition get_or :: "'a option \<Rightarrow> 'a \<Rightarrow> 'a" where
  "get_or v d = (case v of None \<Rightarrow> d | Some x \<Rightarrow> x)"

subsection \<open>_detect_protocol\<close>

text \<open>\<open>key in json_data\<close> for whatever \<open>json.loads\<close> returned.\<close>

fun py_contains :: "pyval \<Rightarrow> string \<Rightarrow> pyexc + bool" where
  "py_contains (VDict d) k = Inr (k \<in> set (dict_keys d))"
| "py_contains (VList l) k = Inr (VStr k \<in> set l)"
| "py_contains (VStr s) k = Inr (contains s k)"
| "py_contains v k = Inl TypeError"

text \<open>
  The \<open>try\<close> block of the JSON test; its bare \<open>except: pass\<close> is the result
  \<open>None\<close>.
\<close>

definition detect_json :: "pylib \<Rightarrow> string \<Rightarrow> string option" where
  "detect_json lib data =
     (case json_loads lib data of
        Inl e \<Rightarrow> None
      | Inr json_data \<Rightarrow>
          (case py_contains json_data ''outbounds'' of
             Inl e \<Rightarrow> None
           | Inr True \<Rightarrow> Some ''sing-box''
           | Inr False \<Rightarrow>
               (case py_contains json_data ''inbounds'' of
                  Inl e \<Rightarrow> None
                | Inr True \<Rightarrow> Some ''xray''
                | Inr False \<Rightarrow> None)))"

definition detect_protocol :: "pylib \<Rightarrow> string \<Rightarrow> string" where
  "detect_protocol lib raw =
     (let data = strip raw in
      if startswith data ''ss://'' then ''shadowsocks''
      else if startswith data ''trojan://'' then ''trojan''
      else if startswith data ''vless://'' \<or> startswith data ''vmess://'' then ''xray''
      else if startswith data ''wg://'' \<or> startswith data ''wireguard://'' then ''wireguard''
      else if startswith data ''amnezia://'' then ''amneziawg''
      else if startswith data ''hysteria://'' \<or> startswith data ''hy2://'' then ''hysteria2''
      else if contains data ''[Interface]'' \<and> contains data ''[Peer]''
      then (if contains data ''Jc'' \<or> contains data ''Jmin'' then ''amneziawg''
            else ''wireguard'')
      else if contains (lower lib data) ''client'' \<and> contains (lower lib data) ''dev tun''
      then ''openvpn''
      else (case (if startswith (strip data) ''{'' then detect_json lib data else None) of
              Some p \<Rightarrow> p
            | None \<Rightarrow>
                if contains data ''SOCKSPort'' \<or> contains (lower lib data) ''torrc'' then ''tor''
                else ''unknown''))"

subsection \<open>_parse_wireguard\<close>

text \<open>The variables of the INI loop, and one pass of its body.\<close>

record wg_state =
  current_section :: "string option"
  current_peer :: pydict
  interface :: pydict
  peers :: "pyval list"

definition wg_line :: "pylib \<Rightarrow> string \<Rightarrow> wg_state \<Rightarrow> wg_state" where
  "wg_line lib raw st =
     (let line = strip raw in
      if line = [] \<or> startswith line ''#'' then st
      else if startswith line ''['' \<and> endswith line '']''
      then (let sec = butlast (drop 1 line) in
            if sec = ''Peer''
            then st\<lparr> current_section := Some sec,
                     peers := (if current_peer st \<noteq> []
                               then peers st @ [VDict (current_peer st)] else peers st),
                     current_peer := [] \<rparr>
            else st\<lparr> current_section := Some sec \<rparr>)
      else if CHR ''='' \<in> set line
      then (let key = lower lib (strip (fst (split_once CHR ''='' line)));
                val = strip (snd (split_once CHR ''='' line)) in
            if current_section st = Some ''Interface''
            then st\<lparr> interface := dict_set (interface st) key (VStr val) \<rparr>
            else if current_section st = Some ''Peer''
            then st\<lparr> current_peer := dict_set (current_peer st) key (VStr val) \<rparr>
            else st)
      else st)"

definition wg_kvm_optimizations :: "parser_resources \<Rightarrow> pyval" where
  "wg_kvm_optimizations res =
     VDict [(''multiqueue'', VBool True),
            (''rx_queues'', VInt (min (get_or (cpu_count res) 4) 8)),
            (''tx_queues'', VInt (min (get_or (cpu_count res) 4) 8)),
            (''vhost_net'', VBool True)]"

text \<open>\<open>re.sub(r'^(wg://|wireguard://)', '', url)\<close>\<close>

fun strip_prefixes :: "string list \<Rightarrow> string \<Rightarrow> string" where
  "strip_prefixes [] s = s"
| "strip_prefixes (p # ps) s =
     (if startswith s p then drop (length p) s else strip_prefixes ps s)"

text \<open>\<open>for key, values in params.items(): result["interface"][key.lower()] = values[0]\<close>\<close>

fun qs_items :: "pylib \<Rightarrow> (string \<times> string list) list \<Rightarrow> pydict \<Rightarrow> pyexc + pydict" where
  "qs_items lib [] d = Inr d"
| "qs_items lib ((k, vs) # rest) d =
     (case vs of [] \<Rightarrow> Inl IndexError
      | v # _ \<Rightarrow> qs_items lib rest (dict_set d (lower lib k) (VStr v)))"

definition parse_wireguard_url :: "pylib \<Rightarrow> parser_resources \<Rightarrow> string \<Rightarrow> pyexc + pydict" where
  "parse_wireguard_url lib res url0 =
     (let url1 = strip_prefixes [''wg://'', ''wireguard://''] url0;
          has_name = CHR ''#'' \<in> set url1;
          url2 = (if has_name then fst (split_once CHR ''#'' url1) else url1);
          has_query = CHR ''?'' \<in> set url2;
          url3 = (if has_query then fst (split_once CHR ''?'' url2) else url2)
      in (case (if has_query
                then qs_items lib (parse_qs lib (snd (split_once CHR ''?'' url2))) []
                else Inr [])
          of Inl e \<Rightarrow> Inl e
           | Inr iface \<Rightarrow>
               let keys = fst (split_once CHR ''@'' url3);
                   endpoint = snd (split_once CHR ''@'' url3);
                   iface' = (if CHR ''@'' \<in> set url3
                             then (if CHR ''+'' \<in> set keys
                                   then dict_set iface ''privatekey''
                                          (VStr (fst (split_once CHR ''+'' keys)))
                                   else dict_set iface ''privatekey'' (VStr keys))
                             else iface);
                   prs = (if CHR ''@'' \<in> set url3
                          then (if CHR ''+'' \<in> set keys
                                then [VDict [(''publickey'', VStr (snd (split_once CHR ''+'' keys))),
                                             (''endpoint'', VStr endpoint)]]
                                else [VDict [(''endpoint'', VStr endpoint)]])
                          else [])
               in Inr ([(''type'', VStr ''wireguard''),
                        (''interface'', VDict iface'),
                        (''peers'', VList prs),
                        (''kvm_optimizations'',
                           VDict [(''multiqueue'', VBool True),
                                  (''rx_queues'', VInt (get_or (cpu_count res) 4))])]
                       @ (if has_name then [(''name'', VStr (snd (split_once CHR ''#'' url1)))]
                          else []))))"

definition amnezia_params :: "string list" where
  "amnezia_params = [''jc'', ''jmin'', ''jmax'', ''s1'', ''s2'', ''h1'', ''h2'', ''h3'', ''h4'']"

definition parse_wireguard :: "pylib \<Rightarrow> parser_resources \<Rightarrow> string \<Rightarrow> pyexc + pydict" where
  "parse_wireguard lib res data =
     (if startswith data ''wg://'' \<or> startswith data ''wireguard://''
      then parse_wireguard_url lib res data
      else
        let st = fold (wg_line lib) (split_on CHR ''\<newline>'' data)
                   \<lparr> current_section = None, current_peer = [], interface = [], peers = [] \<rparr>;
            all_peers = (if current_peer st \<noteq> [] then peers st @ [VDict (current_peer st)]
                         else peers st)
        in Inr [(''type'', VStr (if list_ex (\<lambda>param. param \<in> set (dict_keys (interface st)))
                                      amnezia_params
                                 then ''amneziawg'' else ''wireguard'')),
                (''interface'', VDict (interface st)),
                (''peers'', VList all_peers),
                (''kvm_optimizations'', wg_kvm_optimizations res)])"

subsection \<open>WireGuard INI texts\<close>

text \<open>
  \<open>"\n".join(lines)\<close>; a line that is a \<open>[Section]\<close> header for the decoder;
  and what a block of lines between two headers assigns: each \<open>key = value\<close> line, in
  order, key stripped and lower-cased, value stripped, a repeated key overwritten in place.
\<close>

fun join_lines :: "string list \<Rightarrow> string" where
  "join_lines [] = []"
| "join_lines [l] = l"
| "join_lines (l # ls) = l @ CHR ''\<newline>'' # join_lines ls"

definition is_header :: "string \<Rightarrow> bool" where
  "is_header raw = (startswith (strip raw) ''['' \<and> endswith (strip raw) '']'')"

definition block_item :: "pylib \<Rightarrow> string \<Rightarrow> pydict \<Rightarrow> pydict" where
  "block_item lib raw d =
     (let line = strip raw in
      if line = [] \<or> startswith line ''#'' \<or> CHR ''='' \<notin> set line then d
      else dict_set d (lower lib (strip (fst (split_once CHR ''='' line))))
             (VStr (strip (snd (split_once CHR ''='' line)))))"

definition block_items :: "pylib \<Rightarrow> string list \<Rightarrow> pydict" where
  "block_items lib ls = fold (block_item lib) ls []"

subsection \<open>Example library and resources\<close>

text \<open>
  The library as it answers on texts that are not JSON, have no query parameter, no percent
  escape and no number, and the parser's default resources.
\<close>

definition no_json :: pylib where
  "no_json = \<lparr> json_loads = (\<lambda>_. Inl JSONDecodeError), parse_qs = (\<lambda>_. []), unquote = (\<lambda>s. s),
               int_str = (\<lambda>_. Inl (ValueError ''invalid literal for int() with base 10'')),
               str_lower = (\<lambda>s. s) \<rparr>"

definition default_resources :: parser_resources where
  "default_resources = \<lparr> cpu_count = Some 4, memory_mb = Some 2048, virtio_net = Some True,
                          virtio_queues = Some 4 \<rparr>"

subsection \<open>Library functions used by the Shadowsocks decoder\<close>

text \<open>
  \<open>base64.b64decode(s)\<close> for a \<open>str\<close>: a non-ASCII character raises
  \<open>ValueError\<close>; otherwise \<open>binascii.a2b_base64\<close> in its default,
  non-strict mode (CPython 3): characters outside the alphabet are skipped, a pad that
  completes a quad ends the decoding, and leftover characters raise \<open>binascii.Error\<close>.
  \<open>b64_value\<close> is the table \<open>table_a2b_base64\<close>; the arguments of
  \<open>a2b_base64\<close> are \<open>quad_pos\<close>, \<open>leftchar\<close>, \<open>pads\<close> and the
  bytes written so far.
\<close>

definition b64_value :: "char \<Rightarrow> nat option" where
  "b64_value c =
     (let n = (of_char c :: nat) in
      if 65 \<le> n \<and> n \<le> 90 then Some (n - 65)
      else if 97 \<le> n \<and> n \<le> 122 then Some (n - 71)
      else if 48 \<le> n \<and> n \<le> 57 then Some (n + 4)
      else if n = 43 then Some 62
      else if n = 47 then Some 63
      else None)"

fun a2b_base64 :: "string \<Rightarrow> nat \<Rightarrow> nat \<Rightarrow> nat \<Rightarrow> string \<Rightarrow> pyexc + string" where
  "a2b_base64 [] quad_pos leftchar pads out =
     (if quad_pos = 0 then Inr out
      else if quad_pos = 1
      then Inl (BinasciiError ''Invalid base64-encoded string'')
      else Inl (BinasciiError ''Incorrect padding''))"
| "a2b_base64 (c # rest) quad_pos leftchar pads out =
     (if c = CHR ''=''
      then (if quad_pos \<ge> 2 \<and> quad_pos + (pads + 1) \<ge> 4 then Inr out
            else a2b_base64 rest quad_pos leftchar
                   (if quad_pos \<ge> 2 then pads + 1 else pads) out)
      else (case b64_value c of
              None \<Rightarrow> a2b_base64 rest quad_pos leftchar pads out
            | Some v \<Rightarrow>
                if quad_pos = 0 then a2b_base64 rest 1 v 0 out
                else if quad_pos = 1
                then a2b_base64 rest 2 (v mod 16) 0 (out @ [char_of (leftchar * 4 + v div 16)])
                else if quad_pos = 2
                then a2b_base64 rest 3 (v mod 4) 0 (out @ [char_of (leftchar * 16 + v div 4)])
                else a2b_base64 rest 0 0 0 (out @ [char_of (leftchar * 64 + v)])))"

definition b64decode :: "string \<Rightarrow> pyexc + string" where
  "b64decode s =
     (if list_ex (\<lambda>c. (of_char c :: nat) \<ge> 128) s
      then Inl (ValueError ''string argument should contain only ASCII characters'')
      else a2b_base64 s 0 0 0 [])"

text \<open>
  \<open>bytes.decode('utf-8')\<close>: the bytes must be well-formed UTF-8 (no overlong forms,
  no surrogates, nothing above U+10FFFF); the resulting \<open>str\<close> has those bytes as its
  encoding.
\<close>

fun utf8_valid :: "nat list \<Rightarrow> bool" where
  "utf8_valid [] = True"
| "utf8_valid (a # bs) =
     (if a < 128 then utf8_valid bs
      else if 194 \<le> a \<and> a \<le> 223
      then (case bs of
              b # r \<Rightarrow> 128 \<le> b \<and> b \<le> 191 \<and> utf8_valid r
            | _ \<Rightarrow> False)
      else if 224 \<le> a \<and> a \<le> 239
      then (case bs of
              b # c # r \<Rightarrow>
                (if a = 224 then 160 \<le> b else 128 \<le> b)
                \<and> (if a = 237 then b \<le> 159 else b \<le> 191)
                \<and> 128 \<le> c \<and> c \<le> 191 \<and> utf8_valid r
            | _ \<Rightarrow> False)
      else if 240 \<le> a \<and> a \<le> 244
      then (case bs of
              b # c # d # r \<Rightarrow>
                (if a = 240 then 144 \<le> b else 128 \<le> b)
                \<and> (if a = 244 then b \<le> 143 else b \<le> 191)
                \<and> 128 \<le> c \<and> c \<le> 191 \<and> 128 \<le> d \<and> d \<le> 191 \<and> utf8_valid r
            | _ \<Rightarrow> False)
      else False)"

definition decode_utf8 :: "string \<Rightarrow> pyexc + string" where
  "decode_utf8 bs = (if utf8_valid (map of_char bs) then Inr bs else Inl UnicodeDecodeError)"

subsection \<open>_parse_shadowsocks\<close>

definition ss_kvm_optimizations :: pyval where
  "ss_kvm_optimizations = VDict [(''tcp_fastopen'', VBool True), (''reuse_port'', VBool True)]"

text \<open>
  The inner \<open>try\<close>: decode the authority as base64 and UTF-8 and split it at the
  first colon; on any exception, split the authority itself. \<open>None\<close> means that
  method and password are not assigned.
\<close>

definition ss_auth :: "string \<Rightarrow> (string \<times> string) option" where
  "ss_auth auth_part =
     (case (case b64decode auth_part of Inl e \<Rightarrow> Inl e | Inr bs \<Rightarrow> decode_utf8 bs) of
        Inr decoded \<Rightarrow>
          if CHR '':'' \<in> set decoded then Some (split_once CHR '':'' decoded) else None
      | Inl e \<Rightarrow>
          if CHR '':'' \<in> set auth_part then Some (split_once CHR '':'' auth_part) else None)"

definition parse_shadowsocks :: "pylib \<Rightarrow> string \<Rightarrow> pyexc + pydict" where
  "parse_shadowsocks lib data0 =
     (let result0 = [(''type'', VStr ''shadowsocks''), (''method'', VNone), (''password'', VNone),
                     (''server'', VNone), (''port'', VNone), (''plugin'', VNone),
                     (''kvm_optimizations'', ss_kvm_optimizations)];
          data1 = (if startswith data0 ''ss://'' then drop 5 data0 else data0);
          has_name = CHR ''#'' \<in> set data1;
          data2 = (if has_name then fst (split_once CHR ''#'' data1) else data1);
          result1 = (if has_name
                     then dict_set result0 ''name''
                            (VStr (unquote lib (snd (split_once CHR ''#'' data1))))
                     else result0);
          has_query = CHR ''?'' \<in> set data2;
          data3 = (if has_query then fst (split_once CHR ''?'' data2) else data2);
          params = (if has_query then parse_qs lib (snd (split_once CHR ''?'' data2)) else [])
      in (case (case dict_get params ''plugin'' of
                  None \<Rightarrow> Inr result1
                | Some [] \<Rightarrow> Inl IndexError
                | Some (v # _) \<Rightarrow> Inr (dict_set result1 ''plugin'' (VStr v)))
          of Inl e \<Rightarrow> Inl e
           | Inr result2 \<Rightarrow>
               if CHR ''@'' \<in> set data3
               then
                 let auth_part = fst (split_once CHR ''@'' data3);
                     server_part = snd (split_once CHR ''@'' data3);
                     result3 = (case ss_auth auth_part of
                                  None \<Rightarrow> result2
                                | Some (m, p) \<Rightarrow>
                                    dict_set (dict_set result2 ''method'' (VStr m))
                                      ''password'' (VStr p))
                 in if CHR '':'' \<in> set server_part
                    then
                      let result4 = dict_set result3 ''server''
                                      (VStr (fst (split_once CHR '':'' server_part)))
                      in (case int_str lib (snd (split_once CHR '':'' server_part)) of
                            Inr port \<Rightarrow> Inr (dict_set result4 ''port'' (VInt port))
                          | Inl e \<Rightarrow> Inr (dict_set result4 ''error'' (VText (StrOf e))))
                    else Inr result3
               else Inr result2))"

subsection \<open>Notions used in the proofs about strings\<close>

text \<open>
  The byte lists that encode a \<open>str\<close>; an ASCII character that is not whitespace; a pair
  of tests for two-byte and three-byte characters that only accept bytes above 127; and a
  text that begins with a whitespace character.
\<close>

definition is_str :: "string \<Rightarrow> bool" where
  "is_str s = utf8_valid (map of_char s)"

definition plain_char :: "char \<Rightarrow> bool" where
  "plain_char c = ((of_char c :: nat) < 128 \<and> \<not> is_space c)"

definition high :: "(char \<Rightarrow> char \<Rightarrow> bool) \<Rightarrow> (char \<Rightarrow> char \<Rightarrow> char \<Rightarrow> bool) \<Rightarrow> bool" where
  "high p2 p3 =
     ((\<forall>a b. p2 a b \<longrightarrow> 128 \<le> (of_char a :: nat) \<and> 128 \<le> (of_char b :: nat))
      \<and> (\<forall>a b c. p3 a b c \<longrightarrow> 128 \<le> (of_char a :: nat) \<and> 128 \<le> (of_char b :: nat)
                      \<and> 128 \<le> (of_char c :: nat)))"

definition heads ::
  "(char \<Rightarrow> char \<Rightarrow> bool) \<Rightarrow> (char \<Rightarrow> char \<Rightarrow> char \<Rightarrow> bool) \<Rightarrow> string \<Rightarrow> bool" where
  "heads p2 p3 s =
     (case s of [] \<Rightarrow> False
      | a # r \<Rightarrow> is_space a \<or>
          (case r of [] \<Rightarrow> False
           | b # r' \<Rightarrow> p2 a b \<or> (case r' of [] \<Rightarrow> False | c # _ \<Rightarrow> p3 a b c)))"

section \<open>Facts about dictionaries\<close>

lemma dict_get_set_same: "dict_get (dict_set d k v) k = Some v"
  by (induction d) (auto simp: dict_get_def)

lemma dict_get_set_other: "k' \<noteq> k \<Longrightarrow> dict_get (dict_set d k v) k' = dict_get d k'"
  by (induction d) (auto simp: dict_get_def)

lemma dict_keys_set:
  "dict_keys (dict_set d k v) = (if k \<in> set (dict_keys d) then dict_keys d else dict_keys d @ [k])"
  by (induction d) (auto simp: dict_keys_def rev_image_eqI)

lemma dict_set_distinct: "distinct (dict_keys d) \<Longrightarrow> distinct (dict_keys (dict_set d k v))"
  by (simp add: dict_keys_set)

section \<open>Registration\<close>

text \<open>
  Claim C10. For every name, service type and config, whether or not the name is already
  registered, \<open>register_service\<close> leaves under that name a fresh record: status
  \<open>"stopped"\<close>, pid \<open>None\<close>, start\_time \<open>None\<close>, restart\_count 0, last\_error
  \<open>None\<close>. Nothing of an earlier record under the same name survives (the new record
  is a function of the three arguments alone), no other record changes, no key is added
  when the name was already present, and nothing but the table is touched: no process is
  stopped.
\<close>

theorem register_service_fresh:
  "dict_get (services (register_service m n ty cfg)) n = Some (fresh_service n ty cfg)
   \<and> status (fresh_service n ty cfg) = ''stopped''
   \<and> pid (fresh_service n ty cfg) = None
   \<and> start_time (fresh_service n ty cfg) = None
   \<and> restart_count (fresh_service n ty cfg) = 0
   \<and> last_error (fresh_service n ty cfg) = None
   \<and> (\<forall>k. k \<noteq> n \<longrightarrow>
         dict_get (services (register_service m n ty cfg)) k = dict_get (services m) k)
   \<and> (n \<in> set (dict_keys (services m)) \<longrightarrow>
         dict_keys (services (register_service m n ty cfg)) = dict_keys (services m))
   \<and> kvm_resources (register_service m n ty cfg) = kvm_resources m
   \<and> running (register_service m n ty cfg) = running m"
  by (simp add: register_service_def fresh_service_def dict_get_set_same
      dict_get_set_other dict_keys_set)

theorem register_service_fresh_witness:
  "(let m0 = register_service \<lparr> kvm_resources = Map.empty, services = [], running = False \<rparr>
               ''a'' ''tor'' ();
        m1 = m0\<lparr> services := dict_set (services m0) ''a''
               ((fresh_service ''a'' ''tor'' ())\<lparr> status := ''running'', pid := Some 7,
                   restart_count := 2 \<rparr>) \<rparr>;
        m2 = register_service m1 ''a'' ''xray'' ()
    in ''a'' \<in> set (dict_keys (services m1))
       \<and> ''b'' \<noteq> ''a''
       \<and> dict_get (services m2) ''a'' = Some (fresh_service ''a'' ''xray'' ())
       \<and> dict_get (services m2) ''b'' = dict_get (services m1) ''b''
       \<and> dict_keys (services m2) = dict_keys (services m1))"
  using register_service_fresh [of
      "(register_service \<lparr> kvm_resources = Map.empty, services = [], running = False \<rparr>
          ''a'' ''tor'' ())\<lparr> services := dict_set (services (register_service
             \<lparr> kvm_resources = Map.empty, services = [], running = False \<rparr> ''a'' ''tor'' ()))
             ''a'' ((fresh_service ''a'' ''tor'' ())\<lparr> status := ''running'', pid := Some 7,
                   restart_count := 2 \<rparr>) \<rparr>"
      "''a''" "''xray''" "()"]
  by (simp add: Let_def register_service_def dict_keys_def)



section \<open>The monitor's restart bound\<close>

lemma flapping_round:
  "monitor_services flapping_host [''svc'']
     (one_service (running_service ''svc'' ''tor''), r)
   = Inr (one_service (running_service ''svc'' ''tor''), r @ [''svc''])"
  by (simp add: monitor_service_def one_service_def running_service_def fresh_service_def
      dict_get_def truthy_pid_def flapping_host_def put_service_def start_service_def
      check_resources_def create_service_cgroup_def launch_def start_tor_def Let_def)

lemma flapping_loop:
  "monitor_loop (\<lambda>_. flapping_host) k n (one_service (running_service ''svc'' ''tor''), r)
   = Inr (one_service (running_service ''svc'' ''tor''), r @ replicate n ''svc'')"
proof (induction n arbitrary: k r)
  case 0
  then show ?case by simp
next
  case (Suc n)
  have keys: "dict_keys (services (one_service (running_service ''svc'' ''tor''))) = [''svc'']"
    by (simp add: one_service_def dict_keys_def running_service_def fresh_service_def)
  have run: "running (one_service (running_service ''svc'' ''tor''))"
    by (simp add: one_service_def)
  show ?case
    using Suc.IH [of "Suc k" "r @ [''svc'']"]
    by (simp add: keys run flapping_round replicate_app_Cons_same del: monitor_services.simps)
qed

text \<open>
  Claim C1, evaluated on the code. A registered \<open>tor\<close> service is Running with
  restart\_count 0; its backend launches successfully every time and is dead at every
  poll. Each round the monitor raises restart\_count to 1, calls \<open>start_service\<close>,
  and the successful start writes restart\_count back to 0. After \<open>n\<close> rounds, for
  every \<open>n\<close>, the monitor has restarted the service \<open>n\<close> times, the record is
  exactly as at the beginning (Running, restart\_count 0) and the status Error has not been
  reached: the bound of 3 automatic restarts does not hold.
\<close>

theorem monitor_restarts_unbounded:
  "monitor_loop (\<lambda>_. flapping_host) 0 n (one_service (running_service ''svc'' ''tor''), [])
     = Inr (one_service (running_service ''svc'' ''tor''), replicate n ''svc'')
   \<and> status (running_service ''svc'' ''tor'') = ''running''
   \<and> restart_count (running_service ''svc'' ''tor'') = 0"
  using flapping_loop [of 0 n "[]"]
  by (simp add: running_service_def fresh_service_def)

section \<open>Stopping\<close>







section \<open>The status query\<close>







section \<open>Admission control\<close>

lemma check_resources_denied:
  "dict_get (services m) n = Some s \<Longrightarrow>
   type s \<in> set [''xray'', ''adguardhome'', ''hysteria2''] \<Longrightarrow>
   kvm_resources m ''memory_available_mb'' = Some mb \<Longrightarrow> mb < 512 \<Longrightarrow>
   check_resources env m n = Inr (False, [LogError])"
  by (simp add: check_resources_def Let_def)

text \<open>
  The denial exit of \<open>start_service\<close>, for every registered service of a memory-heavy
  type and every table that reports less than 512 MB: the call returns \<open>False\<close> and the
  only field it writes is last\_error. The status, like the pid, is as before the call.
\<close>

lemma start_service_denied:
  assumes "dict_get (services m) n = Some s"
    and "type s \<in> set [''xray'', ''adguardhome'', ''hysteria2'']"
    and "kvm_resources m ''memory_available_mb'' = Some mb" and "mb < 512"
  shows "start_service env m n
           = Inr (False, put_service m n (s\<lparr> last_error := Some (Lit ''Insufficient resources'') \<rparr>))"
  using assms(1) check_resources_denied [OF assms, of env]
  by (simp add: start_service_def)

text \<open>
  Claim C3, evaluated on the code. A freshly registered \<open>xray\<close> service (status
  \<open>stopped\<close>, no pid) is started on a manager whose table reports 100 MB available,
  on any host. Admission is denied: the call returns \<open>False\<close>, no pid is recorded and
  last\_error is \<open>"Insufficient resources"\<close>, but the status is still \<open>stopped\<close>:
  the service has not moved to \<open>error\<close>. The other failure exit of the same function
  does set the status: a \<open>tor\<close> service whose launch finds no process ends with
  status \<open>error\<close> and last\_error \<open>"Start failed"\<close>.
\<close>

theorem admission_denied_keeps_status:
  "(\<exists>m'. start_service env (one_service (fresh_service ''x'' ''xray'' ())) ''x''
            = Inr (False, m')
        \<and> map (\<lambda>(k, s). (status s, pid s, last_error s)) (services m')
            = [(''stopped'', None, Some (Lit ''Insufficient resources''))])
   \<and> (\<exists>m'. start_service failing_host (one_service (fresh_service ''t'' ''tor'' ())) ''t''
              = Inr (False, m')
          \<and> map (\<lambda>(k, s). (status s, pid s, last_error s)) (services m')
              = [(''error'', None, Some (Lit ''Start failed''))])"
  by (simp add: start_service_def check_resources_def one_service_def fresh_service_def
      dict_get_def put_service_def launch_def start_tor_def create_service_cgroup_def
      failing_host_def flapping_host_def Let_def)

section \<open>Strings\<close>

lemmas str_eval = strip_def lstrip_def rstrip_def is_space_def space2_def space3_def lower_def
  lower_char_def endswith_def split_once_def Let_def

lemma startswith_iff: "startswith s p \<longleftrightarrow> (\<exists>t. s = p @ t)"
  by (induction s p rule: startswith.induct) auto

lemma high_fwd: "high space2 space3"
  by (auto simp: high_def space2_def space3_def Let_def)

lemma high_bwd: "high (\<lambda>a b. space2 b a) (\<lambda>a b c. space3 c b a)"
  by (auto simp: high_def space2_def space3_def Let_def)

lemma high2: "high p2 p3 \<Longrightarrow> p2 a b \<Longrightarrow> 128 \<le> (of_char a :: nat) \<and> 128 \<le> (of_char b :: nat)"
  by (simp add: high_def)

lemma high3:
  "high p2 p3 \<Longrightarrow> p3 a b c \<Longrightarrow>
   128 \<le> (of_char a :: nat) \<and> 128 \<le> (of_char b :: nat) \<and> 128 \<le> (of_char c :: nat)"
  by (simp add: high_def)

lemma plain_not_space:
  assumes "high p2 p3" "plain_char c"
  shows "\<not> is_space c" "\<not> p2 c x" "\<not> p2 x c" "\<not> p3 c x y" "\<not> p3 x c y" "\<not> p3 x y c"
  using assms(2) high2 [OF assms(1), of c x] high2 [OF assms(1), of x c]
    high3 [OF assms(1), of c x y] high3 [OF assms(1), of x c y] high3 [OF assms(1), of x y c]
  by (auto simp: plain_char_def)

text \<open>Stripping stops at a plain character, wherever it stands.\<close>

lemma drop_space_head:
  assumes "high p2 p3" "plain_char c"
  shows "drop_space p2 p3 (c # q) = c # q"
proof (cases q)
  case Nil
  then show ?thesis using plain_not_space [OF assms] by simp
next
  case (Cons b r)
  then show ?thesis using plain_not_space [OF assms] by (cases r) simp_all
qed

lemma drop_space_plain:
  "high p2 p3 \<Longrightarrow> plain_char c \<Longrightarrow> \<exists>u'. drop_space p2 p3 (u @ c # q) = u' @ c # q"
proof (induction p2 p3 u rule: drop_space.induct)
  case (1 p2 p3 a b c' s)
  then show ?case by (auto intro: exI [of _ "a # b # c' # s"])
next
  case (2 p2 p3 a b)
  note n = plain_not_space [OF 2(2,3)]
  have hd: "drop_space p2 p3 (c # q) = c # q"
    by (rule drop_space_head [OF 2(2,3)])
  show ?case
  proof (cases "is_space a")
    case True
    with 2 obtain u' where "drop_space p2 p3 ([b] @ c # q) = u' @ c # q" by blast
    with True show ?thesis by simp
  next
    case False
    then show ?thesis using n hd by (auto intro: exI [of _ "[a, b]"])
  qed
next
  case (3 p2 p3 a)
  note n = plain_not_space [OF 3]
  have hd: "drop_space p2 p3 (c # q) = c # q"
    by (rule drop_space_head [OF 3])
  show ?case
  proof (cases q)
    case Nil
    then show ?thesis using n by (auto intro: exI [of _ "[a]"])
  next
    case (Cons d q')
    then show ?thesis using n hd by (auto intro: exI [of _ "[a]"])
  qed
next
  case (4 p2 p3)
  then show ?case by (simp add: drop_space_head)
qed

text \<open>What is left begins with no whitespace character, and is a suffix of the text.\<close>

lemma not_heads_fix: "\<not> heads p2 p3 s \<Longrightarrow> drop_space p2 p3 s = s"
  by (induction p2 p3 s rule: drop_space.induct) (auto simp: heads_def)

lemma not_heads_drop: "\<not> heads p2 p3 (drop_space p2 p3 s)"
  by (induction p2 p3 s rule: drop_space.induct) (auto simp: heads_def)

lemma drop_space_idem: "drop_space p2 p3 (drop_space p2 p3 s) = drop_space p2 p3 s"
  by (simp add: not_heads_fix not_heads_drop)

lemma drop_space_drop: "\<exists>n. drop_space p2 p3 s = drop n s"
proof (induction p2 p3 s rule: drop_space.induct)
  case (1 p2 p3 a b c s)
  show ?case
  proof (cases "is_space a")
    case True
    with 1 obtain n where "drop_space p2 p3 (b # c # s) = drop n (b # c # s)" by blast
    with True show ?thesis by (auto intro: exI [of _ "Suc n"])
  next
    case False
    note na = this
    show ?thesis
    proof (cases "p2 a b")
      case True
      with 1 na obtain n where "drop_space p2 p3 (c # s) = drop n (c # s)" by blast
      with True na show ?thesis by (auto intro: exI [of _ "Suc (Suc n)"])
    next
      case False
      note nb = this
      show ?thesis
      proof (cases "p3 a b c")
        case True
        with 1 na nb obtain n where "drop_space p2 p3 s = drop n s" by blast
        with True na nb show ?thesis by (auto intro: exI [of _ "Suc (Suc (Suc n))"])
      next
        case False
        with na nb show ?thesis by (auto intro: exI [of _ 0])
      qed
    qed
  qed
next
  case (2 p2 p3 a b)
  show ?case
  proof (cases "is_space a")
    case True
    with 2 obtain n where "drop_space p2 p3 [b] = drop n [b]" by blast
    with True show ?thesis by (auto intro: exI [of _ "Suc n"])
  next
    case False
    then show ?thesis by (auto intro: exI [of _ 0] exI [of _ 2])
  qed
next
  case (3 p2 p3 a)
  then show ?case by (auto intro: exI [of _ 0] exI [of _ 1])
next
  case (4 p2 p3)
  then show ?case by simp
qed

lemma heads_append: "heads p2 p3 s \<Longrightarrow> heads p2 p3 (s @ w)"
  by (auto simp: heads_def split: list.splits)

lemma rstrip_prefix: "\<exists>w. a = rstrip a @ w"
proof -
  obtain n where n: "drop_space (\<lambda>a b. space2 b a) (\<lambda>a b c. space3 c b a) (rev a) = drop n (rev a)"
    using drop_space_drop by blast
  have "rev (drop n (rev a)) @ rev (take n (rev a)) = rev (take n (rev a) @ drop n (rev a))"
    by (simp only: rev_append)
  also have "\<dots> = a" by (simp only: append_take_drop_id rev_rev_ident)
  finally show ?thesis unfolding rstrip_def n by metis
qed

lemma strip_idem: "strip (strip s) = strip s"
proof -
  let ?a = "lstrip s"
  let ?b = "rstrip ?a"
  obtain w where w: "?a = ?b @ w" using rstrip_prefix by blast
  have "\<not> heads space2 space3 ?a" unfolding lstrip_def by (rule not_heads_drop)
  then have "\<not> heads space2 space3 ?b" using heads_append [of space2 space3 ?b w] w by auto
  then have "lstrip ?b = ?b" unfolding lstrip_def by (rule not_heads_fix)
  moreover have "rstrip ?b = ?b" by (simp add: rstrip_def drop_space_idem)
  ultimately show ?thesis by (simp add: strip_def)
qed

text \<open>A text that begins with a word of plain characters still does once stripped.\<close>

lemma startswith_strip:
  assumes "startswith s p" "p \<noteq> []" "plain_char (hd p)" "plain_char (last p)"
  shows "startswith (strip s) p"
proof -
  from assms(1) obtain t where s: "s = p @ t" by (auto simp: startswith_iff)
  obtain c q where p: "p = c # q" using assms(2) by (cases p) auto
  have l: "lstrip s = s"
    using assms(3) by (simp add: s p lstrip_def drop_space_head [OF high_fwd])
  have r: "rev (p @ t) = rev t @ last p # rev (butlast p)"
    using assms(2)
    by (metis append_butlast_last_id rev.simps(2) rev_append rev_rev_ident append_Cons
        append_Nil append_assoc)
  obtain u' where "drop_space (\<lambda>a b. space2 b a) (\<lambda>a b c. space3 c b a) (rev (p @ t))
                     = u' @ last p # rev (butlast p)"
    unfolding r using drop_space_plain [OF high_bwd assms(4)] by blast
  then have "rstrip (p @ t) = rev (rev (butlast p)) @ [last p] @ rev u'"
    by (simp add: rstrip_def)
  then have "rstrip (p @ t) = p @ rev u'" using assms(2) by simp
  moreover have "lstrip (p @ t) = p @ t" using l s by simp
  ultimately show ?thesis by (simp add: strip_def s startswith_iff)
qed

lemma scheme_strip:
  "startswith raw ''ss://'' \<Longrightarrow> startswith (strip raw) ''ss://''"
  "startswith raw ''trojan://'' \<Longrightarrow> startswith (strip raw) ''trojan://''"
  "startswith raw ''vless://'' \<Longrightarrow> startswith (strip raw) ''vless://''"
  "startswith raw ''vmess://'' \<Longrightarrow> startswith (strip raw) ''vmess://''"
  "startswith raw ''wg://'' \<Longrightarrow> startswith (strip raw) ''wg://''"
  "startswith raw ''hysteria://'' \<Longrightarrow> startswith (strip raw) ''hysteria://''"
  "startswith raw ''hy2://'' \<Longrightarrow> startswith (strip raw) ''hy2://''"
  by (erule startswith_strip; simp add: plain_char_def is_space_def)+

text \<open>
  \<open>strip\<close> on a text that holds U+00A0, U+2003 and U+3000: the characters around
  \<open>ss://x\<close> are removed, the one inside stays.
\<close>

lemma strip_unicode:
  "strip ([CHR 0xC2, CHR 0xA0] @ ''ss:'' @ [CHR 0xE2, CHR 0x80, CHR 0x83] @ ''//x \<newline>''
          @ [CHR 0xE3, CHR 0x80, CHR 0x80])
   = ''ss:'' @ [CHR 0xE2, CHR 0x80, CHR 0x83] @ ''//x''"
  by (simp add: str_eval)

section \<open>Protocol detection\<close>

text \<open>
  Claim C5. \<open>detect_protocol\<close> is a function of the library and the text alone. For
  every text (the encoding of a \<open>str\<close>): one that begins with \<open>ss://\<close> is detected
  as shadowsocks, \<open>trojan://\<close> as trojan, \<open>vless://\<close> and \<open>vmess://\<close> as
  xray, \<open>wg://\<close> as wireguard, \<open>hysteria://\<close> and \<open>hy2://\<close> as hysteria2,
  whatever else the text contains (the structural tests come after the schemes). A text
  that, once stripped, begins with no scheme, does not contain both \<open>[Interface]\<close> and
  \<open>[Peer]\<close>, does not contain both \<open>client\<close> and \<open>dev tun\<close> in lower
  case, is not a JSON object with \<open>outbounds\<close> or \<open>inbounds\<close>, and mentions
  neither \<open>SOCKSPort\<close> nor \<open>torrc\<close>, is detected as unknown.
\<close>

theorem detect_protocol_schemes:
  assumes str: "is_str raw"
  shows "(startswith raw ''ss://'' \<longrightarrow> detect_protocol lib raw = ''shadowsocks'')
   \<and> (startswith raw ''trojan://'' \<longrightarrow> detect_protocol lib raw = ''trojan'')
   \<and> (startswith raw ''vless://'' \<longrightarrow> detect_protocol lib raw = ''xray'')
   \<and> (startswith raw ''vmess://'' \<longrightarrow> detect_protocol lib raw = ''xray'')
   \<and> (startswith raw ''wg://'' \<longrightarrow> detect_protocol lib raw = ''wireguard'')
   \<and> (startswith raw ''hysteria://'' \<longrightarrow> detect_protocol lib raw = ''hysteria2'')
   \<and> (startswith raw ''hy2://'' \<longrightarrow> detect_protocol lib raw = ''hysteria2'')
   \<and> (\<not> (\<exists>scheme \<in> set [''ss://'', ''trojan://'', ''vless://'', ''vmess://'', ''wg://'',
                           ''wireguard://'', ''amnezia://'', ''hysteria://'', ''hy2://''].
             startswith (strip raw) scheme)
        \<and> \<not> (contains (strip raw) ''[Interface]'' \<and> contains (strip raw) ''[Peer]'')
        \<and> \<not> (contains (lower lib (strip raw)) ''client''
              \<and> contains (lower lib (strip raw)) ''dev tun'')
        \<and> \<not> (startswith (strip raw) ''{''
              \<and> (\<exists>json_data. json_loads lib (strip raw) = Inr json_data
                    \<and> (py_contains json_data ''outbounds'' = Inr True
                        \<or> py_contains json_data ''inbounds'' = Inr True)))
        \<and> \<not> contains (strip raw) ''SOCKSPort''
        \<and> \<not> contains (lower lib (strip raw)) ''torrc''
      \<longrightarrow> detect_protocol lib raw = ''unknown'')"
proof (intro conjI impI)
  assume "startswith raw ''ss://''"
  from scheme_strip(1) [OF this] show "detect_protocol lib raw = ''shadowsocks''"
    by (simp add: detect_protocol_def Let_def)
next
  assume "startswith raw ''trojan://''"
  from scheme_strip(2) [OF this] show "detect_protocol lib raw = ''trojan''"
    by (auto simp: detect_protocol_def Let_def startswith_iff)
next
  assume "startswith raw ''vless://''"
  from scheme_strip(3) [OF this] show "detect_protocol lib raw = ''xray''"
    by (auto simp: detect_protocol_def Let_def startswith_iff)
next
  assume "startswith raw ''vmess://''"
  from scheme_strip(4) [OF this] show "detect_protocol lib raw = ''xray''"
    by (auto simp: detect_protocol_def Let_def startswith_iff)
next
  assume "startswith raw ''wg://''"
  from scheme_strip(5) [OF this] show "detect_protocol lib raw = ''wireguard''"
    by (auto simp: detect_protocol_def Let_def startswith_iff)
next
  assume "startswith raw ''hysteria://''"
  from scheme_strip(6) [OF this] show "detect_protocol lib raw = ''hysteria2''"
    by (auto simp: detect_protocol_def Let_def startswith_iff)
next
  assume "startswith raw ''hy2://''"
  from scheme_strip(7) [OF this] show "detect_protocol lib raw = ''hysteria2''"
    by (auto simp: detect_protocol_def Let_def startswith_iff)
next
  assume h: "\<not> (\<exists>scheme \<in> set [''ss://'', ''trojan://'', ''vless://'', ''vmess://'', ''wg://'',
                           ''wireguard://'', ''amnezia://'', ''hysteria://'', ''hy2://''].
             startswith (strip raw) scheme)
        \<and> \<not> (contains (strip raw) ''[Interface]'' \<and> contains (strip raw) ''[Peer]'')
        \<and> \<not> (contains (lower lib (strip raw)) ''client''
              \<and> contains (lower lib (strip raw)) ''dev tun'')
        \<and> \<not> (startswith (strip raw) ''{''
              \<and> (\<exists>json_data. json_loads lib (strip raw) = Inr json_data
                    \<and> (py_contains json_data ''outbounds'' = Inr True
                        \<or> py_contains json_data ''inbounds'' = Inr True)))
        \<and> \<not> contains (strip raw) ''SOCKSPort''
        \<and> \<not> contains (lower lib (strip raw)) ''torrc''"
  have j: "startswith (strip raw) ''{'' \<Longrightarrow> detect_json lib (strip raw) = None"
    using h by (auto simp: detect_json_def split: sum.splits bool.splits)
  have ss: "strip (strip raw) = strip raw"
    by (rule strip_idem)
  show "detect_protocol lib raw = ''unknown''"
    using h j by (auto simp: detect_protocol_def Let_def ss)
qed

text \<open>
  One text for each scheme; a text with no marker, between a no-break space (U+00A0) and a
  space; and a \<open>ss://\<close> URL after a no-break space, which is stripped like any other
  whitespace, so that the text is not one without marker.
\<close>

theorem detect_protocol_schemes_witness:
  "detect_protocol no_json ''ss://YWJj@host:1'' = ''shadowsocks''
   \<and> detect_protocol no_json ''trojan://pw@host:443'' = ''trojan''
   \<and> detect_protocol no_json ''vless://id@host:443'' = ''xray''
   \<and> detect_protocol no_json ''vmess://e30='' = ''xray''
   \<and> detect_protocol no_json ''wg://k@host:51820 [Interface] [Peer]'' = ''wireguard''
   \<and> detect_protocol no_json ''hysteria://host:443?auth=x'' = ''hysteria2''
   \<and> detect_protocol no_json ''hy2://host:443?auth=x'' = ''hysteria2''
   \<and> detect_protocol no_json ([CHR 0xC2, CHR 0xA0] @ ''{hello} '') = ''unknown''"
proof -
  have s: "is_str ''ss://YWJj@host:1''" "is_str ''trojan://pw@host:443''"
    "is_str ''vless://id@host:443''" "is_str ''vmess://e30=''"
    "is_str ''wg://k@host:51820 [Interface] [Peer]''" "is_str ''hysteria://host:443?auth=x''"
    "is_str ''hy2://host:443?auth=x''" "is_str ([CHR 0xC2, CHR 0xA0] @ ''{hello} '')"
    by (simp_all add: is_str_def)
  have t: "strip ([CHR 0xC2, CHR 0xA0] @ ''{hello} '') = ''{hello}''"
    by (simp add: str_eval)
  show ?thesis
    using detect_protocol_schemes [OF s(1), of no_json]
          detect_protocol_schemes [OF s(2), of no_json]
          detect_protocol_schemes [OF s(3), of no_json]
          detect_protocol_schemes [OF s(4), of no_json]
          detect_protocol_schemes [OF s(5), of no_json]
          detect_protocol_schemes [OF s(6), of no_json]
          detect_protocol_schemes [OF s(7), of no_json]
          detect_protocol_schemes [OF s(8), of no_json]
    by (simp add: str_eval no_json_def)
qed

text \<open>
  Claim C6, evaluated on the code. A WireGuard-style text whose \<open>[Interface]\<close>
  section sets the AmneziaWG-only key \<open>Jmax\<close> (and neither \<open>Jc\<close> nor
  \<open>Jmin\<close>) is auto-detected as \<open>wireguard\<close>, whatever the library, while the
  WireGuard decoder records the type \<open>amneziawg\<close> for the same text.
\<close>

theorem detect_misses_amnezia_keys:
  "detect_protocol lib ''[Interface]\<newline>PrivateKey = a\<newline>Jmax = 50\<newline>[Peer]\<newline>PublicKey = c''
     = ''wireguard''
   \<and> parse_wireguard lib res ''[Interface]\<newline>PrivateKey = a\<newline>Jmax = 50\<newline>[Peer]\<newline>PublicKey = c''
     = Inr [(''type'', VStr ''amneziawg''),
          (''interface'', VDict [(''privatekey'', VStr ''a''), (''jmax'', VStr ''50'')]),
          (''peers'', VList [VDict [(''publickey'', VStr ''c'')]]),
          (''kvm_optimizations'', wg_kvm_optimizations res)]"
  by (simp add: detect_protocol_def parse_wireguard_def str_eval wg_line_def amnezia_params_def
      dict_keys_def)

section \<open>The WireGuard decoder\<close>

lemma split_on_nonempty: "split_on c s \<noteq> []"
  by (induction s) (auto split: list.splits)

lemma split_on_no_sep: "c \<notin> set l \<Longrightarrow> split_on c (l @ c # rest) = l # split_on c rest"
  by (induction l) (auto split: list.splits)

lemma split_on_single: "c \<notin> set l \<Longrightarrow> split_on c l = [l]"
  by (induction l) (auto split: list.splits)

lemma split_join_lines:
  "ls \<noteq> [] \<Longrightarrow> \<forall>l \<in> set ls. CHR ''\<newline>'' \<notin> set l \<Longrightarrow>
   split_on CHR ''\<newline>'' (join_lines ls) = ls"
proof (induction ls rule: join_lines.induct)
  case 1 then show ?case by simp
next
  case (2 l) then show ?case by (simp add: split_on_single)
next
  case (3 l v va)
  then show ?case by (simp add: split_on_no_sep)
qed

lemma wg_line_plain:
  "\<not> is_header raw \<Longrightarrow>
   wg_line lib raw st =
     (if current_section st = Some ''Interface''
      then st\<lparr> interface := block_item lib raw (interface st) \<rparr>
      else if current_section st = Some ''Peer''
      then st\<lparr> current_peer := block_item lib raw (current_peer st) \<rparr>
      else st)"
  by (auto simp: wg_line_def is_header_def block_item_def Let_def)

lemma fold_wg_plain:
  "\<forall>l \<in> set ls. \<not> is_header l \<Longrightarrow>
   fold (wg_line lib) ls st =
     (if current_section st = Some ''Interface''
      then st\<lparr> interface := fold (block_item lib) ls (interface st) \<rparr>
      else if current_section st = Some ''Peer''
      then st\<lparr> current_peer := fold (block_item lib) ls (current_peer st) \<rparr>
      else st)"
proof (induction ls arbitrary: st)
  case Nil then show ?case by simp
next
  case (Cons l ls)
  then show ?case by (simp add: wg_line_plain)
qed

lemma wg_line_interface:
  "strip h = ''[Interface]'' \<Longrightarrow>
   wg_line lib h st = st\<lparr> current_section := Some ''Interface'' \<rparr>"
  by (simp add: wg_line_def endswith_def Let_def)

lemma wg_line_peer:
  "strip h = ''[Peer]'' \<Longrightarrow>
   wg_line lib h st = st\<lparr> current_section := Some ''Peer'',
                    peers := (if current_peer st \<noteq> [] then peers st @ [VDict (current_peer st)]
                              else peers st),
                    current_peer := [] \<rparr>"
  by (simp add: wg_line_def endswith_def Let_def)

text \<open>
  Claim C7, as amended. Take any WireGuard INI text (the encoding of a \<open>str\<close>) made of
  any lines before the first header, an \<open>[Interface]\<close> header with its lines, and two
  \<open>[Peer]\<close> headers each followed by its block of lines, none of these lines being a
  header itself. It is decoded without error, and the peer entries are the assignments of
  the first block and then those of the second, each block that assigns at least one key
  giving one entry and a block that assigns none giving no entry: exactly two entries, in
  source order, when both blocks assign a key, the last block included although no header
  follows it. The interface entry holds the assignments of the \<open>[Interface]\<close> block, and
  the lines before the first header leave no trace in the result.
\<close>

theorem parse_wireguard_two_peers:
  assumes str: "is_str data"
    and lines: "\<forall>l \<in> set (pre @ iface @ p1 @ p2 @ [hi, hp1, hp2]). CHR ''\<newline>'' \<notin> set l"
    and plain: "\<forall>l \<in> set (pre @ iface @ p1 @ p2). \<not> is_header l"
    and hi: "strip hi = ''[Interface]''"
    and hp1: "strip hp1 = ''[Peer]''"
    and hp2: "strip hp2 = ''[Peer]''"
    and data: "data = join_lines (pre @ [hi] @ iface @ [hp1] @ p1 @ [hp2] @ p2)"
    and nourl: "\<not> startswith data ''wg://''" "\<not> startswith data ''wireguard://''"
  shows "parse_wireguard lib res data =
           Inr [(''type'',
                   VStr (if list_ex (\<lambda>param. param \<in> set (dict_keys (block_items lib iface)))
                              amnezia_params
                         then ''amneziawg'' else ''wireguard'')),
                (''interface'', VDict (block_items lib iface)),
                (''peers'',
                   VList (map VDict (filter (\<lambda>entry. entry \<noteq> [])
                                       [block_items lib p1, block_items lib p2]))),
                (''kvm_optimizations'', wg_kvm_optimizations res)]"
proof -
  let ?st0 = "\<lparr> current_section = None, current_peer = [], interface = [], peers = [] \<rparr>"
  have sp: "split_on CHR ''\<newline>'' data = pre @ [hi] @ iface @ [hp1] @ p1 @ [hp2] @ p2"
    unfolding data using lines by (intro split_join_lines) auto
  have pl: "\<forall>l \<in> set pre. \<not> is_header l" "\<forall>l \<in> set iface. \<not> is_header l"
           "\<forall>l \<in> set p1. \<not> is_header l" "\<forall>l \<in> set p2. \<not> is_header l"
    using plain by auto
  have 1: "fold (wg_line lib) pre ?st0 = ?st0"
    by (simp add: fold_wg_plain [OF pl(1)])
  have 2: "fold (wg_line lib) (pre @ [hi] @ iface) ?st0
            = \<lparr> current_section = Some ''Interface'', current_peer = [],
                interface = block_items lib iface, peers = [] \<rparr>"
    by (simp add: 1 wg_line_interface [OF hi] fold_wg_plain [OF pl(2)] block_items_def)
  have 3: "fold (wg_line lib) (pre @ [hi] @ iface @ [hp1] @ p1) ?st0
            = \<lparr> current_section = Some ''Peer'', current_peer = block_items lib p1,
                interface = block_items lib iface, peers = [] \<rparr>"
    using 2 by (simp add: wg_line_peer [OF hp1] fold_wg_plain [OF pl(3)] block_items_def)
  have 4: "fold (wg_line lib) (pre @ [hi] @ iface @ [hp1] @ p1 @ [hp2] @ p2) ?st0
            = \<lparr> current_section = Some ''Peer'', current_peer = block_items lib p2,
                interface = block_items lib iface,
                peers = (if block_items lib p1 \<noteq> [] then [VDict (block_items lib p1)] else []) \<rparr>"
    using 3 by (simp add: wg_line_peer [OF hp2] fold_wg_plain [OF pl(4)] block_items_def)
  have 5: "fold (wg_line lib) (split_on CHR ''\<newline>'' data) ?st0
            = \<lparr> current_section = Some ''Peer'', current_peer = block_items lib p2,
                interface = block_items lib iface,
                peers = (if block_items lib p1 \<noteq> [] then [VDict (block_items lib p1)] else []) \<rparr>"
    using 4 by (simp only: sp)
  show ?thesis
    using nourl by (simp add: parse_wireguard_def 5 Let_def)
qed

text \<open>
  A text with a line before the first header and two peer blocks that assign keys, and the
  same text with a first peer block that assigns none.
\<close>

theorem parse_wireguard_two_peers_witness:
  "parse_wireguard no_json default_resources
     (join_lines ([''x = 1''] @ [''[Interface]''] @ [''PrivateKey = a''] @ ['' [Peer]'']
                  @ [''PublicKey = b''] @ [''[Peer]''] @ [''PublicKey = c'', ''Endpoint = h:1'']))
   = Inr [(''type'', VStr ''wireguard''),
          (''interface'', VDict [(''privatekey'', VStr ''a'')]),
          (''peers'', VList [VDict [(''publickey'', VStr ''b'')],
                             VDict [(''publickey'', VStr ''c''), (''endpoint'', VStr ''h:1'')]]),
          (''kvm_optimizations'', wg_kvm_optimizations default_resources)]
   \<and> parse_wireguard no_json default_resources
     (join_lines ([''x = 1''] @ [''[Interface]''] @ [''PrivateKey = a''] @ ['' [Peer]'']
                  @ [''# none''] @ [''[Peer]''] @ [''PublicKey = c'', ''Endpoint = h:1'']))
   = Inr [(''type'', VStr ''wireguard''),
          (''interface'', VDict [(''privatekey'', VStr ''a'')]),
          (''peers'', VList [VDict [(''publickey'', VStr ''c''), (''endpoint'', VStr ''h:1'')]]),
          (''kvm_optimizations'', wg_kvm_optimizations default_resources)]"
proof -
  let ?d1 = "join_lines ([''x = 1''] @ [''[Interface]''] @ [''PrivateKey = a''] @ ['' [Peer]'']
                  @ [''PublicKey = b''] @ [''[Peer]''] @ [''PublicKey = c'', ''Endpoint = h:1''])"
  let ?d2 = "join_lines ([''x = 1''] @ [''[Interface]''] @ [''PrivateKey = a''] @ ['' [Peer]'']
                  @ [''# none''] @ [''[Peer]''] @ [''PublicKey = c'', ''Endpoint = h:1''])"
  have s: "is_str ?d1" "is_str ?d2"
    by (simp_all add: is_str_def)
  have a1: "\<forall>l \<in> set ([''x = 1''] @ [''PrivateKey = a''] @ [''PublicKey = b'']
              @ [''PublicKey = c'', ''Endpoint = h:1''] @ [''[Interface]'', '' [Peer]'', ''[Peer]'']).
             CHR ''\<newline>'' \<notin> set l"
    by simp
  have a2: "\<forall>l \<in> set ([''x = 1''] @ [''PrivateKey = a''] @ [''# none'']
              @ [''PublicKey = c'', ''Endpoint = h:1''] @ [''[Interface]'', '' [Peer]'', ''[Peer]'']).
             CHR ''\<newline>'' \<notin> set l"
    by simp
  have b1: "\<forall>l \<in> set ([''x = 1''] @ [''PrivateKey = a''] @ [''PublicKey = b'']
              @ [''PublicKey = c'', ''Endpoint = h:1'']). \<not> is_header l"
    by (simp add: is_header_def str_eval)
  have b2: "\<forall>l \<in> set ([''x = 1''] @ [''PrivateKey = a''] @ [''# none'']
              @ [''PublicKey = c'', ''Endpoint = h:1'']). \<not> is_header l"
    by (simp add: is_header_def str_eval)
  have c: "strip ''[Interface]'' = ''[Interface]''" "strip '' [Peer]'' = ''[Peer]''"
          "strip ''[Peer]'' = ''[Peer]''"
    by (simp_all add: str_eval)
  have d: "block_items no_json [''PublicKey = b''] = [(''publickey'', VStr ''b'')]"
          "block_items no_json [''PublicKey = c'', ''Endpoint = h:1'']
             = [(''publickey'', VStr ''c''), (''endpoint'', VStr ''h:1'')]"
          "block_items no_json [''PrivateKey = a''] = [(''privatekey'', VStr ''a'')]"
          "block_items no_json [''# none''] = []"
    by (simp_all add: block_items_def block_item_def str_eval)
  have e1: "\<not> startswith ?d1 ''wg://''" "\<not> startswith ?d1 ''wireguard://''"
    by simp_all
  have e2: "\<not> startswith ?d2 ''wg://''" "\<not> startswith ?d2 ''wireguard://''"
    by simp_all
  show ?thesis
    using parse_wireguard_two_peers [OF s(1) a1 b1 c refl e1, of no_json default_resources]
          parse_wireguard_two_peers [OF s(2) a2 b2 c refl e2, of no_json default_resources]
    by (simp add: d amnezia_params_def dict_keys_def)
qed

text \<open>
  The claim as stated fails: one \<open>[Interface]\<close> section and two \<open>[Peer]\<close>
  headers, the first with an empty block, give one peer entry.
\<close>

theorem parse_wireguard_empty_peer_counterexample:
  "parse_wireguard no_json default_resources
     ''[Interface]\<newline>PrivateKey = a\<newline>[Peer]\<newline>[Peer]\<newline>PublicKey = c''
   = Inr [(''type'', VStr ''wireguard''),
          (''interface'', VDict [(''privatekey'', VStr ''a'')]),
          (''peers'', VList [VDict [(''publickey'', VStr ''c'')]]),
          (''kvm_optimizations'', wg_kvm_optimizations default_resources)]"
  by (simp add: parse_wireguard_def str_eval wg_line_def amnezia_params_def dict_keys_def)

section \<open>The Shadowsocks decoder\<close>

lemmas ss_eval = parse_shadowsocks_def ss_auth_def decode_utf8_def split_once_def dict_get_def
  Let_def

text \<open>
  Claim C8, evaluated on the code. The Shadowsocks URL of the module's own list of test
  cases carries the base64 encoding of \<open>chacha20-ietf-poly1305:password\<close> without its
  two pad characters, as such URLs are commonly written. \<open>b64decode\<close> raises
  \<open>Incorrect padding\<close>, the \<open>except\<close> branch finds no colon in the authority,
  and method and password stay \<open>None\<close>, whatever the library answers; server and name
  are decoded. With the two pad characters the same authority is decoded and method and
  password are the encoded ones.
\<close>

theorem parse_shadowsocks_unpadded:
  "b64decode ''Y2hhY2hhMjAtaWV0Zi1wb2x5MTMwNTpwYXNzd29yZA''
     = Inl (BinasciiError ''Incorrect padding'')
   \<and> b64decode ''Y2hhY2hhMjAtaWV0Zi1wb2x5MTMwNTpwYXNzd29yZA==''
       = Inr ''chacha20-ietf-poly1305:password''
   \<and> (\<exists>r. parse_shadowsocks lib
              ''ss://Y2hhY2hhMjAtaWV0Zi1wb2x5MTMwNTpwYXNzd29yZA@example.com:8443#MySS'' = Inr r
         \<and> dict_get r ''method'' = Some VNone \<and> dict_get r ''password'' = Some VNone
         \<and> dict_get r ''server'' = Some (VStr ''example.com'')
         \<and> dict_get r ''name'' = Some (VStr (unquote lib ''MySS'')))
   \<and> (\<exists>r. parse_shadowsocks lib
              ''ss://Y2hhY2hhMjAtaWV0Zi1wb2x5MTMwNTpwYXNzd29yZA==@example.com:8443#MySS'' = Inr r
         \<and> dict_get r ''method'' = Some (VStr ''chacha20-ietf-poly1305'')
         \<and> dict_get r ''password'' = Some (VStr ''password''))"
proof (intro conjI)
  show d1: "b64decode ''Y2hhY2hhMjAtaWV0Zi1wb2x5MTMwNTpwYXNzd29yZA''
              = Inl (BinasciiError ''Incorrect padding'')"
    by (simp add: b64decode_def b64_value_def char_of_def bit_0)
  show d2: "b64decode ''Y2hhY2hhMjAtaWV0Zi1wb2x5MTMwNTpwYXNzd29yZA==''
              = Inr ''chacha20-ietf-poly1305:password''"
    by (simp add: b64decode_def b64_value_def char_of_def bit_0)
  show "\<exists>r. parse_shadowsocks lib
              ''ss://Y2hhY2hhMjAtaWV0Zi1wb2x5MTMwNTpwYXNzd29yZA@example.com:8443#MySS'' = Inr r
         \<and> dict_get r ''method'' = Some VNone \<and> dict_get r ''password'' = Some VNone
         \<and> dict_get r ''server'' = Some (VStr ''example.com'')
         \<and> dict_get r ''name'' = Some (VStr (unquote lib ''MySS''))"
    by (cases "int_str lib ''8443''") (simp_all add: ss_eval d1)
  show "\<exists>r. parse_shadowsocks lib
              ''ss://Y2hhY2hhMjAtaWV0Zi1wb2x5MTMwNTpwYXNzd29yZA==@example.com:8443#MySS'' = Inr r
         \<and> dict_get r ''method'' = Some (VStr ''chacha20-ietf-poly1305'')
         \<and> dict_get r ''password'' = Some (VStr ''password'')"
    by (cases "int_str lib ''8443''") (simp_all add: ss_eval d2)
qed

end
